theory Spec2Isabelle
  imports Complex_Main "HOL-Library.Word"
begin

section \<open>JavaScript values\<close>

text \<open>
  The front end is plain JavaScript. A JavaScript string is a sequence of UTF-16 code
  units, and \<^verbatim>\<open>length\<close>, \<^verbatim>\<open>trim\<close> and \<^verbatim>\<open>substring\<close> count and cut code units, so a string
  is a list of 16-bit words. \<open>ustr\<close> turns an ASCII literal of the source into such a
  list.
\<close>

type_synonym jsstring = "16 word list"

definition ustr :: "string \<Rightarrow> jsstring" where
  "ustr s = map of_char s"

text \<open>
  A number is kept as the decimal \<open>\<plusminus> coeff \<times> 10\<^bsup>expo\<^esup>\<close> that \<^verbatim>\<open>Number::toString\<close> prints it
  from (the shortest decimal that identifies the double), or as one of the three values
  that are not finite. Every value that \<^verbatim>\<open>JSON.parse\<close> builds is a \<open>jsval\<close>; \<open>Undefined\<close>
  is what reading an absent property gives.
\<close>

datatype jsnum = NaN | Inf bool | Dec bool nat int

datatype jsval =
    Undefined
  | Null
  | Bool bool
  | Num jsnum
  | Str jsstring
  | Arr "jsval list"
  | Obj "(jsstring \<times> jsval) list"

datatype js_error = Error jsstring | TypeError | SyntaxError | NetworkError

fun num_val :: "jsnum \<Rightarrow> rat option" where
  "num_val NaN = None"
| "num_val (Inf _) = None"
| "num_val (Dec neg c e) = Some ((if neg then -1 else 1) * of_nat c * 10 powi e)"

text \<open>\<^verbatim>\<open>ToBoolean\<close>: what \<^verbatim>\<open>!x\<close>, \<^verbatim>\<open>x || y\<close> and \<^verbatim>\<open>if (x)\<close> test.\<close>

fun truthy :: "jsval \<Rightarrow> bool" where
  "truthy Undefined = False"
| "truthy Null = False"
| "truthy (Bool b) = b"
| "truthy (Num NaN) = False"
| "truthy (Num (Inf _)) = True"
| "truthy (Num (Dec _ c _)) = (c \<noteq> 0)"
| "truthy (Str s) = (s \<noteq> [])"
| "truthy (Arr _) = True"
| "truthy (Obj _) = True"

text \<open>The operator \<^verbatim>\<open>a || b\<close> on values.\<close>

definition js_or :: "jsval \<Rightarrow> jsval \<Rightarrow> jsval" where
  "js_or a b = (if truthy a then a else b)"

fun typeof :: "jsval \<Rightarrow> string" where
  "typeof Undefined = ''undefined''"
| "typeof Null = ''object''"
| "typeof (Bool _) = ''boolean''"
| "typeof (Num _) = ''number''"
| "typeof (Str _) = ''string''"
| "typeof (Arr _) = ''object''"
| "typeof (Obj _) = ''object''"

subsection \<open>String operations\<close>

text \<open>
  The code units \<^verbatim>\<open>String.prototype.trim\<close> removes: ECMAScript's WhiteSpace (tab, VT, FF,
  the BOM and the Unicode space separators) and LineTerminator (LF, CR, LS, PS).
\<close>

definition is_ws :: "16 word \<Rightarrow> bool" where
  "is_ws c = (c \<in> {0x9, 0xA, 0xB, 0xC, 0xD, 0x20, 0xA0, 0x1680, 0x2028, 0x2029,
                   0x202F, 0x205F, 0x3000, 0xFEFF}
             \<or> (0x2000 \<le> c \<and> c \<le> 0x200A))"

definition trim :: "jsstring \<Rightarrow> jsstring" where
  "trim s = rev (dropWhile is_ws (rev (dropWhile is_ws s)))"

text \<open>
  \<^verbatim>\<open>s.substring(start, stop)\<close> with integer arguments: both are clamped to \<open>[0, length]\<close>
  and swapped when they are out of order.
\<close>

definition substring :: "jsstring \<Rightarrow> int \<Rightarrow> int \<Rightarrow> jsstring" where
  "substring s start stop =
     (let len = int (length s);
          finalStart = min (max start 0) len;
          finalEnd = min (max stop 0) len;
          from = min finalStart finalEnd;
          to = max finalStart finalEnd
      in take (nat (to - from)) (drop (nat from) s))"

subsection \<open>Conversion to strings\<close>

text \<open>
  \<^verbatim>\<open>Number::toString\<close> in radix 10. For a finite number other than zero it takes the
  integers \<open>k\<close>, \<open>s\<close>, \<open>n\<close> with \<open>s\<close> of \<open>k\<close> digits, \<open>k\<close> least and value \<open>s \<times> 10\<^bsup>n - k\<^esup>\<close>:
  here \<open>s\<close> is the coefficient without its trailing zeros. It prints positional
  notation for \<open>-5 \<le> n \<le> 21\<close> and exponent notation otherwise.
\<close>

fun dec_digits :: "nat \<Rightarrow> nat list" where
  "dec_digits n = (if n < 10 then [n] else dec_digits (n div 10) @ [n mod 10])"

declare dec_digits.simps [simp del]

fun trailing_zeros :: "nat \<Rightarrow> nat" where
  "trailing_zeros n = (if 0 < n \<and> n mod 10 = 0 then Suc (trailing_zeros (n div 10)) else 0)"

declare trailing_zeros.simps [simp del]

definition digit_unit :: "nat \<Rightarrow> 16 word" where
  "digit_unit d = of_nat (48 + d)"

definition decimal :: "nat \<Rightarrow> jsstring" where
  "decimal n = map digit_unit (dec_digits n)"

definition finite_to_string :: "nat \<Rightarrow> int \<Rightarrow> jsstring" where
  "finite_to_string c e =
     (let t = trailing_zeros c;
          ds = decimal (c div 10 ^ t);
          k = int (length ds);
          n = k + e + int t
      in if -5 \<le> n \<and> n \<le> 21 then
           (if k \<le> n then ds @ replicate (nat (n - k)) (digit_unit 0)
            else if 0 < n then take (nat n) ds @ ustr ''.'' @ drop (nat n) ds
            else ustr ''0.'' @ replicate (nat (- n)) (digit_unit 0) @ ds)
         else
           (let ex = decimal (nat \<bar>n - 1\<bar>);
                sg = (if n - 1 < 0 then ustr ''-'' else ustr ''+'')
            in if k = 1 then ds @ ustr ''e'' @ sg @ ex
               else take 1 ds @ ustr ''.'' @ drop 1 ds @ ustr ''e'' @ sg @ ex))"

fun number_to_string :: "jsnum \<Rightarrow> jsstring" where
  "number_to_string NaN = ustr ''NaN''"
| "number_to_string (Inf neg) = (if neg then ustr ''-Infinity'' else ustr ''Infinity'')"
| "number_to_string (Dec neg c e) =
     (if c = 0 then ustr ''0''
      else (if neg then ustr ''-'' else []) @ finite_to_string c e)"

text \<open>
  \<^verbatim>\<open>ToString\<close>, which a template literal, a computed property key and the \<^verbatim>\<open>Error\<close>
  constructor apply to their argument. An array is joined with commas (\<^verbatim>\<open>null\<close> and
  \<^verbatim>\<open>undefined\<close> elements print as nothing). A plain object prints through
  \<^verbatim>\<open>Object.prototype.toString\<close>, unless it has an own property \<^verbatim>\<open>toString\<close>: that value is
  data, never a function, \<^verbatim>\<open>valueOf\<close> cannot give a primitive either, and the conversion
  throws a TypeError.
\<close>

fun to_string :: "jsval \<Rightarrow> js_error + jsstring"
  and join_elements :: "jsval list \<Rightarrow> js_error + jsstring"
where
  "to_string Undefined = Inr (ustr ''undefined'')"
| "to_string Null = Inr (ustr ''null'')"
| "to_string (Bool b) = Inr (if b then ustr ''true'' else ustr ''false'')"
| "to_string (Num n) = Inr (number_to_string n)"
| "to_string (Str s) = Inr s"
| "to_string (Arr xs) = join_elements xs"
| "to_string (Obj ps) =
     (if ustr ''toString'' \<in> fst ` set ps then Inl TypeError
      else Inr (ustr ''[object Object]''))"
| "join_elements [] = Inr []"
| "join_elements (x # xs) =
     (case (if x = Undefined \<or> x = Null then Inr [] else to_string x) of
        Inl e \<Rightarrow> Inl e
      | Inr s \<Rightarrow>
          if xs = [] then Inr s
          else (case join_elements xs of
                  Inl e \<Rightarrow> Inl e
                | Inr r \<Rightarrow> Inr (s @ ustr '','' @ r)))"

subsection \<open>Reading properties\<close>

text \<open>
  \<open>get_prop v k\<close> is \<^verbatim>\<open>v[k]\<close> for a value \<open>v\<close> that is neither \<^verbatim>\<open>null\<close> nor \<^verbatim>\<open>undefined\<close> and a
  name \<open>k\<close> that no built-in prototype defines: the own property of an object, and
  \<^verbatim>\<open>undefined\<close> otherwise. The names read this way are \<^verbatim>\<open>agent_name\<close>, \<^verbatim>\<open>confidence\<close>,
  \<^verbatim>\<open>reasoning\<close>, \<^verbatim>\<open>metadata\<close> and \<^verbatim>\<open>detail\<close>. On \<^verbatim>\<open>null\<close> and \<^verbatim>\<open>undefined\<close> a property read
  throws a TypeError, which \<open>read_member\<close> adds.
\<close>

fun get_prop :: "jsval \<Rightarrow> jsstring \<Rightarrow> jsval" where
  "get_prop (Obj ps) k = (case map_of ps k of Some v \<Rightarrow> v | None \<Rightarrow> Undefined)"
| "get_prop _ k = Undefined"

definition read_member :: "jsval \<Rightarrow> jsstring \<Rightarrow> js_error + jsval" where
  "read_member v k = (if v = Undefined \<or> v = Null then Inl TypeError else Inr (get_prop v k))"

text \<open>Whether a value is a finite number of the closed interval from 0 to 1.\<close>

fun in_unit_interval :: "jsval \<Rightarrow> bool" where
  "in_unit_interval (Num n) = (case num_val n of None \<Rightarrow> False | Some q \<Rightarrow> 0 \<le> q \<and> q \<le> 1)"
| "in_unit_interval _ = False"

section \<open>DebateManager.validateMessage\<close>

text \<open>
  \<^verbatim>\<open>
  validateMessage(message) {
      if (!message || typeof message !== 'string') {
          return { valid: false, error: 'Message is required' };
      }
      if (message.trim().length === 0) {
          return { valid: false, error: 'Message cannot be empty' };
      }
      if (message.length > 2000) {
          return { valid: false, error: 'Message is too long (max 2000 characters)' };
      }
      return { valid: true };
  }\<close>
  The body reads its argument only: it calls nothing, and assigns to no field of the
  manager or of the application. The model is therefore a function of \<open>message\<close> alone.
\<close>

record validation =
  valid :: bool
  error :: "jsstring option"

text \<open>The code units of a value that \<^verbatim>\<open>typeof\<close> has found to be a string.\<close>

fun str_units :: "jsval \<Rightarrow> jsstring" where
  "str_units (Str s) = s"
| "str_units _ = []"

definition validateMessage :: "jsval \<Rightarrow> validation" where
  "validateMessage message =
     (if \<not> truthy message \<or> typeof message \<noteq> ''string''
      then \<lparr>valid = False, error = Some (ustr ''Message is required'')\<rparr>
      else if length (trim (str_units message)) = 0
      then \<lparr>valid = False, error = Some (ustr ''Message cannot be empty'')\<rparr>
      else if length (str_units message) > 2000
      then \<lparr>valid = False, error = Some (ustr ''Message is too long (max 2000 characters)'')\<rparr>
      else \<lparr>valid = True, error = None\<rparr>)"

section \<open>UIManager.truncateText\<close>

text \<open>
  \<^verbatim>\<open>
  truncateText(text, maxLength) {
      if (!text) return '';
      if (text.length <= maxLength) return text;
      return text.substring(0, maxLength - 3) + '...';
  }\<close>
  \<open>text\<close> is a string, or \<open>None\<close> for \<^verbatim>\<open>null\<close> and \<^verbatim>\<open>undefined\<close>; \<open>maxLength\<close> is an integer.
\<close>

definition truncateText :: "jsstring option \<Rightarrow> int \<Rightarrow> jsstring" where
  "truncateText text maxLength =
     (case text of
        None \<Rightarrow> []
      | Some t \<Rightarrow>
          if t = [] then []
          else if int (length t) \<le> maxLength then t
          else substring t 0 (maxLength - 3) @ ustr ''...'')"

section \<open>DebateManager.extractAgentInfo\<close>

text \<open>
  \<^verbatim>\<open>
  extractAgentInfo(response) {
      if (!response) return null;
      const agentMap = {
          'controller': { name: 'Controller', emoji: ..., role: 'Orchestrating debate flow' },
          ...
          'memory': { name: 'Memory', emoji: ..., role: 'Managing context' }
      };
      const agentName = response.agent_name || 'moderator';
      const agentInfo = agentMap[agentName] || agentMap['moderator'];
      return {
          name: agentInfo.name,
          emoji: agentInfo.emoji,
          role: agentInfo.role,
          confidence: response.confidence || 0,
          reasoning: response.reasoning || 'Processing...',
          metadata: response.metadata || {}
      };
  }\<close>
  The eight entries of \<open>agentMap\<close> are copied in the order of the source; each emoji is
  written as its UTF-16 code units.
\<close>

record agent_entry =
  name :: jsval
  emoji :: jsval
  role :: jsval

record agent_info = agent_entry +
  confidence :: jsval
  reasoning :: jsval
  metadata :: jsval

definition agentMap :: "(jsstring \<times> agent_entry) list" where
  "agentMap =
     [(ustr ''controller'',
         \<lparr>name = Str (ustr ''Controller''), emoji = Str [0xD83C, 0xDFAF],
          role = Str (ustr ''Orchestrating debate flow'')\<rparr>),
      (ustr ''moderator'',
         \<lparr>name = Str (ustr ''Moderator''), emoji = Str [0x2696, 0xFE0F],
          role = Str (ustr ''Managing debate structure'')\<rparr>),
      (ustr ''topic_generator'',
         \<lparr>name = Str (ustr ''Topic Generator''), emoji = Str [0xD83D, 0xDCA1],
          role = Str (ustr ''Creating debate topics'')\<rparr>),
      (ustr ''debater_for'',
         \<lparr>name = Str (ustr ''Advocate''), emoji = Str [0xD83D, 0xDC4D],
          role = Str (ustr ''Supporting arguments'')\<rparr>),
      (ustr ''debater_against'',
         \<lparr>name = Str (ustr ''Challenger''), emoji = Str [0xD83D, 0xDC4E],
          role = Str (ustr ''Challenging arguments'')\<rparr>),
      (ustr ''feedback'',
         \<lparr>name = Str (ustr ''Evaluator''), emoji = Str [0xD83D, 0xDCCA],
          role = Str (ustr ''Providing feedback'')\<rparr>),
      (ustr ''coach'',
         \<lparr>name = Str (ustr ''Coach''), emoji = Str [0xD83C, 0xDFC6],
          role = Str (ustr ''Offering strategic tips'')\<rparr>),
      (ustr ''memory'',
         \<lparr>name = Str (ustr ''Memory''), emoji = Str [0xD83E, 0xDDE0],
          role = Str (ustr ''Managing context'')\<rparr>)]"

text \<open>
  \<open>agentMap\<close> is an object literal, so \<^verbatim>\<open>agentMap[key]\<close> looks \<open>key\<close> up among the eight own
  properties first and then along the prototype chain, which is \<^verbatim>\<open>Object.prototype\<close>. Its
  members are the constructor \<^verbatim>\<open>Object\<close>, ten functions that carry their property name,
  and the accessor \<^verbatim>\<open>__proto__\<close>, which answers \<^verbatim>\<open>Object.prototype\<close> itself. All of them
  are truthy. A built-in function has a \<^verbatim>\<open>name\<close> and neither \<^verbatim>\<open>emoji\<close> nor \<^verbatim>\<open>role\<close>;
  \<^verbatim>\<open>Object.prototype\<close> has none of the three. \<open>slot_entry\<close> reads the three properties of
  whatever the lookup found.
\<close>

datatype agent_slot = Own agent_entry | BuiltinFunction jsstring | ObjectPrototype

definition object_prototype_functions :: "jsstring list" where
  "object_prototype_functions =
     map ustr [''hasOwnProperty'', ''isPrototypeOf'', ''propertyIsEnumerable'',
               ''toLocaleString'', ''toString'', ''valueOf'', ''__defineGetter__'',
               ''__defineSetter__'', ''__lookupGetter__'', ''__lookupSetter__'']"

definition object_prototype_get :: "jsstring \<Rightarrow> agent_slot option" where
  "object_prototype_get k =
     (if k = ustr ''constructor'' then Some (BuiltinFunction (ustr ''Object''))
      else if k = ustr ''__proto__'' then Some ObjectPrototype
      else if k \<in> set object_prototype_functions then Some (BuiltinFunction k)
      else None)"

definition agentMap_get :: "jsstring \<Rightarrow> agent_slot option" where
  "agentMap_get k =
     (case map_of agentMap k of
        Some e \<Rightarrow> Some (Own e)
      | None \<Rightarrow> object_prototype_get k)"

fun slot_entry :: "agent_slot \<Rightarrow> agent_entry" where
  "slot_entry (Own e) = e"
| "slot_entry (BuiltinFunction f) = \<lparr>name = Str f, emoji = Undefined, role = Undefined\<rparr>"
| "slot_entry ObjectPrototype = \<lparr>name = Undefined, emoji = Undefined, role = Undefined\<rparr>"

text \<open>The key that \<open>extractAgentInfo\<close> looks up: \<^verbatim>\<open>agentName\<close> as a property key.\<close>

definition agent_key :: "jsval \<Rightarrow> js_error + jsstring" where
  "agent_key response =
     to_string (js_or (get_prop response (ustr ''agent_name'')) (Str (ustr ''moderator'')))"

text \<open>
  The result is \<open>Inr None\<close> for \<^verbatim>\<open>null\<close>, \<open>Inr (Some info)\<close> for the object returned, and
  \<open>Inl e\<close> when the function throws: the computed key \<^verbatim>\<open>agentMap[agentName]\<close> converts
  \<open>agentName\<close> to a string first.
\<close>

definition extractAgentInfo :: "jsval \<Rightarrow> js_error + agent_info option" where
  "extractAgentInfo response =
     (if \<not> truthy response then Inr None
      else
        let agentName = js_or (get_prop response (ustr ''agent_name'')) (Str (ustr ''moderator''))
        in case to_string agentName of
             Inl e \<Rightarrow> Inl e
           | Inr key \<Rightarrow>
               (case (case agentMap_get key of
                        Some slot \<Rightarrow> Some slot
                      | None \<Rightarrow> agentMap_get (ustr ''moderator'')) of
                  None \<Rightarrow> Inl TypeError
                | Some agentInfo \<Rightarrow>
                    Inr (Some
                      \<lparr>name = name (slot_entry agentInfo),
                       emoji = emoji (slot_entry agentInfo),
                       role = role (slot_entry agentInfo),
                       confidence =
                         js_or (get_prop response (ustr ''confidence'')) (Num (Dec False 0 0)),
                       reasoning =
                         js_or (get_prop response (ustr ''reasoning''))
                           (Str (ustr ''Processing...'')),
                       metadata = js_or (get_prop response (ustr ''metadata'')) (Obj [])\<rparr>)))"

section \<open>The requests of DebateManager\<close>

text \<open>
  \<^verbatim>\<open>startDebate\<close>, \<^verbatim>\<open>continueDebate\<close>, \<^verbatim>\<open>endDebate\<close>, \<^verbatim>\<open>getSession\<close> and \<^verbatim>\<open>deleteSession\<close> each
  build one request, await \<^verbatim>\<open>fetch\<close> and then run the same lines:
  \<^verbatim>\<open>
      if (!response.ok) {
          const error = await response.json();
          throw new Error(error.detail || 'HTTP ' + response.status);
      }
      const result = await response.json();
      return result;
  } catch (error) {
      console.error(..., error);
      throw error;
  }\<close>
  (the source writes the message as a template literal). \<open>receive\<close> is these lines. The
  network is a parameter \<open>fetch\<close>, from the request to what the promise settles to: it
  rejects, or it resolves to a response with a status and a body. \<^verbatim>\<open>response.ok\<close> is true
  for a status from 200 to 299. \<^verbatim>\<open>response.json()\<close> rejects with a SyntaxError when the
  body is not JSON text: \<open>body\<close> is \<open>None\<close> then. \<open>json_body\<close> is the value the request
  hands to \<^verbatim>\<open>JSON.stringify\<close>.
\<close>

record request =
  http_method :: string
  url :: jsstring
  json_body :: "jsval option"

record http_response =
  status :: nat
  body :: "jsval option"

datatype fetch_result = Rejected | Resolved http_response

definition ok :: "http_response \<Rightarrow> bool" where
  "ok r = (200 \<le> status r \<and> status r \<le> 299)"

definition response_json :: "http_response \<Rightarrow> js_error + jsval" where
  "response_json r = (case body r of None \<Rightarrow> Inl SyntaxError | Some j \<Rightarrow> Inr j)"

text \<open>
  \<^verbatim>\<open>throw new Error(v)\<close>: the constructor converts \<open>v\<close> to the message, and that
  conversion can throw in its turn.
\<close>

definition throw_new_Error :: "jsval \<Rightarrow> js_error" where
  "throw_new_Error v =
     (if v = Undefined then Error []
      else case to_string v of Inl e \<Rightarrow> e | Inr m \<Rightarrow> Error m)"

definition receive :: "fetch_result \<Rightarrow> js_error + jsval" where
  "receive outcome =
     (case outcome of
        Rejected \<Rightarrow> Inl NetworkError
      | Resolved response \<Rightarrow>
          if \<not> ok response then
            (case response_json response of
               Inl e \<Rightarrow> Inl e
             | Inr error_body \<Rightarrow>
                 (case read_member error_body (ustr ''detail'') of
                    Inl e \<Rightarrow> Inl e
                  | Inr detail \<Rightarrow>
                      Inl (throw_new_Error
                             (js_or detail
                                (Str (ustr ''HTTP '' @
                                      number_to_string (Dec False (status response) 0)))))))
          else response_json response)"

text \<open>A network that settles every request in the same way.\<close>

definition answer_with :: "fetch_result \<Rightarrow> request \<Rightarrow> fetch_result" where
  "answer_with outcome rq = outcome"

definition startDebate :: "(request \<Rightarrow> fetch_result) \<Rightarrow> jsstring \<Rightarrow> jsval \<Rightarrow> js_error + jsval" where
  "startDebate fetch apiUrl topicRequest =
     receive (fetch
       \<lparr>http_method = ''POST'', url = apiUrl @ ustr ''/debate'',
        json_body = Some (Obj [(ustr ''action'', Str (ustr ''start'')),
                               (ustr ''topic_request'', topicRequest)])\<rparr>)"

definition continueDebate ::
  "(request \<Rightarrow> fetch_result) \<Rightarrow> jsstring \<Rightarrow> jsval \<Rightarrow> jsval \<Rightarrow> js_error + jsval" where
  "continueDebate fetch apiUrl sessionId message =
     receive (fetch
       \<lparr>http_method = ''POST'', url = apiUrl @ ustr ''/debate'',
        json_body = Some (Obj [(ustr ''action'', Str (ustr ''continue'')),
                               (ustr ''session_id'', sessionId),
                               (ustr ''user_input'',
                                  Obj [(ustr ''session_id'', sessionId),
                                       (ustr ''message'', message),
                                       (ustr ''voice_input'', Bool False)])])\<rparr>)"

definition endDebate :: "(request \<Rightarrow> fetch_result) \<Rightarrow> jsstring \<Rightarrow> jsval \<Rightarrow> js_error + jsval" where
  "endDebate fetch apiUrl sessionId =
     receive (fetch
       \<lparr>http_method = ''POST'', url = apiUrl @ ustr ''/debate'',
        json_body = Some (Obj [(ustr ''action'', Str (ustr ''end'')),
                               (ustr ''session_id'', sessionId)])\<rparr>)"

definition getSession :: "(request \<Rightarrow> fetch_result) \<Rightarrow> jsstring \<Rightarrow> jsval \<Rightarrow> js_error + jsval" where
  "getSession fetch apiUrl sessionId =
     (case to_string sessionId of
        Inl e \<Rightarrow> Inl e
      | Inr sid \<Rightarrow>
          receive (fetch
            \<lparr>http_method = ''GET'', url = apiUrl @ ustr ''/session/'' @ sid,
             json_body = None\<rparr>))"

definition deleteSession :: "(request \<Rightarrow> fetch_result) \<Rightarrow> jsstring \<Rightarrow> jsval \<Rightarrow> js_error + jsval" where
  "deleteSession fetch apiUrl sessionId =
     (case to_string sessionId of
        Inl e \<Rightarrow> Inl e
      | Inr sid \<Rightarrow>
          receive (fetch
            \<lparr>http_method = ''DELETE'', url = apiUrl @ ustr ''/session/'' @ sid,
             json_body = None\<rparr>))"

section \<open>Phases\<close>

text \<open>
  \<^verbatim>\<open>DebateManager.formatPhase\<close> names six phases, the keys of its table:
  \<^verbatim>\<open>
  const phaseMap = {
      'setup': 'Setup',
      'opening': 'Opening Arguments',
      'rebuttal': 'Rebuttal Phase',
      'closing': 'Closing Statements',
      'evaluation': 'Evaluation',
      'complete': 'Complete'
  };\<close>
\<close>

definition phaseMap :: "(jsstring \<times> jsstring) list" where
  "phaseMap =
     [(ustr ''setup'', ustr ''Setup''),
      (ustr ''opening'', ustr ''Opening Arguments''),
      (ustr ''rebuttal'', ustr ''Rebuttal Phase''),
      (ustr ''closing'', ustr ''Closing Statements''),
      (ustr ''evaluation'', ustr ''Evaluation''),
      (ustr ''complete'', ustr ''Complete'')]"

text \<open>
  Modelled from the spec: the phase state machine of the session engine runs on the
  server, whose code is not among the sources; the front end only displays the phase the
  server reports. The definitions from \<open>phase\<close> to \<open>run\<close> follow section 4.2 of the
  specification: the states \<^verbatim>\<open>setup, opening, rebuttal, closing, evaluation, complete\<close> in a
  line; a proposed transition passes its guard or fails with \<^verbatim>\<open>PhaseViolation\<close> and
  leaves the state unchanged (opening to rebuttal needs one completed round, rebuttal to
  closing the configured minimum, closing to evaluation fires on an end action only); an
  end action is accepted from any phase but \<^verbatim>\<open>complete\<close> and moves to \<^verbatim>\<open>evaluation\<close>; a
  completed exchange adds one to the round and is refused once the session is complete.
\<close>

datatype phase = Setup | Opening | Rebuttal | Closing | Evaluation | Complete

fun phase_name :: "phase \<Rightarrow> string" where
  "phase_name Setup = ''setup''"
| "phase_name Opening = ''opening''"
| "phase_name Rebuttal = ''rebuttal''"
| "phase_name Closing = ''closing''"
| "phase_name Evaluation = ''evaluation''"
| "phase_name Complete = ''complete''"

fun phase_rank :: "phase \<Rightarrow> nat" where
  "phase_rank Setup = 0"
| "phase_rank Opening = 1"
| "phase_rank Rebuttal = 2"
| "phase_rank Closing = 3"
| "phase_rank Evaluation = 4"
| "phase_rank Complete = 5"

record session =
  phase :: phase
  current_round :: nat

datatype core_error = PhaseViolation

datatype action = Propose phase | End | Exchange

fun guard :: "nat \<Rightarrow> session \<Rightarrow> phase \<Rightarrow> bool" where
  "guard minimum_rounds s target =
     (case (phase s, target) of
        (Setup, Opening) \<Rightarrow> True
      | (Opening, Rebuttal) \<Rightarrow> 1 \<le> current_round s
      | (Rebuttal, Closing) \<Rightarrow> minimum_rounds \<le> current_round s
      | (Evaluation, Complete) \<Rightarrow> True
      | _ \<Rightarrow> False)"

fun step :: "nat \<Rightarrow> session \<Rightarrow> action \<Rightarrow> core_error + session" where
  "step minimum_rounds s (Propose target) =
     (if guard minimum_rounds s target then Inr (s\<lparr>phase := target\<rparr>) else Inl PhaseViolation)"
| "step minimum_rounds s End =
     (if phase s = Complete then Inl PhaseViolation else Inr (s\<lparr>phase := Evaluation\<rparr>))"
| "step minimum_rounds s Exchange =
     (if phase s = Complete then Inl PhaseViolation
      else Inr (s\<lparr>current_round := current_round s + 1\<rparr>))"

fun run :: "nat \<Rightarrow> session \<Rightarrow> action list \<Rightarrow> session" where
  "run minimum_rounds s [] = s"
| "run minimum_rounds s (a # acts) =
     run minimum_rounds (case step minimum_rounds s a of Inl _ \<Rightarrow> s | Inr s' \<Rightarrow> s') acts"

section \<open>Properties of validateMessage\<close>

lemma trim_all_ws: "list_all is_ws s \<Longrightarrow> trim s = []"
proof -
  assume "list_all is_ws s"
  then have d: "dropWhile is_ws s = []"
    by (simp add: list_all_iff)
  show ?thesis
    unfolding trim_def d by simp
qed

lemma trim_empty_iff: "trim s = [] \<longleftrightarrow> list_all is_ws s"
proof
  assume "trim s = []"
  then have all: "\<forall>x \<in> set (dropWhile is_ws s). is_ws x"
    by (simp add: trim_def)
  have "dropWhile is_ws s = []"
  proof (cases "dropWhile is_ws s")
    case (Cons x xs)
    then have "\<not> is_ws x"
      using hd_dropWhile [of is_ws s] by simp
    with all Cons show ?thesis by simp
  qed simp
  then show "list_all is_ws s"
    by (simp add: list_all_iff)
qed (rule trim_all_ws)

text \<open>The function by the shape of its argument.\<close>

lemma validateMessage_cases:
  "validateMessage m =
     (case m of
        Str s \<Rightarrow>
          if s = [] then \<lparr>valid = False, error = Some (ustr ''Message is required'')\<rparr>
          else if trim s = [] then \<lparr>valid = False, error = Some (ustr ''Message cannot be empty'')\<rparr>
          else if 2000 < length s
          then \<lparr>valid = False, error = Some (ustr ''Message is too long (max 2000 characters)'')\<rparr>
          else \<lparr>valid = True, error = None\<rparr>
      | _ \<Rightarrow> \<lparr>valid = False, error = Some (ustr ''Message is required'')\<rparr>)"
  by (cases m) (simp_all add: validateMessage_def)

text \<open>
  C5. A message that is missing (\<^verbatim>\<open>undefined\<close> or \<^verbatim>\<open>null\<close>), that is not a string, or
  that is a string of whitespace only (the empty string included) is rejected:
  \<open>valid\<close> is false and the result carries one of the two messages
  \<^verbatim>\<open>Message is required\<close> and \<^verbatim>\<open>Message cannot be empty\<close>. The function takes the message
  and nothing else, neither the network nor the application's session, as its body in
  the source does: rejecting sends no request and changes no state.
\<close>

theorem validateMessage_rejects_missing_or_blank:
  assumes "m = Undefined \<or> m = Null \<or> typeof m \<noteq> ''string''
           \<or> (\<exists>s. m = Str s \<and> list_all is_ws s)"
  shows "valid (validateMessage m) = False
         \<and> (error (validateMessage m) = Some (ustr ''Message is required'')
            \<or> error (validateMessage m) = Some (ustr ''Message cannot be empty''))"
proof (cases m)
  case (Str s)
  with assms have "list_all is_ws s" by simp
  then have "trim s = []" by (rule trim_all_ws)
  with Str show ?thesis by (simp add: validateMessage_cases)
qed (simp_all add: validateMessage_cases)

theorem validateMessage_rejects_missing_or_blank_witness:
  "valid (validateMessage Undefined) = False
   \<and> valid (validateMessage (Num (Dec False 42 0))) = False
   \<and> valid (validateMessage (Str [])) = False
   \<and> valid (validateMessage (Str [0x20, 0x9, 0xA])) = False
   \<and> error (validateMessage (Str [0x20, 0x9, 0xA])) = Some (ustr ''Message cannot be empty'')"
proof -
  have ws: "\<exists>s. Str [0x20, 0x9, 0xA] = Str s \<and> list_all is_ws s"
    by (simp add: is_ws_def)
  have a: "valid (validateMessage Undefined) = False"
    using validateMessage_rejects_missing_or_blank [of Undefined] by simp
  have b: "valid (validateMessage (Num (Dec False 42 0))) = False"
    using validateMessage_rejects_missing_or_blank [of "Num (Dec False 42 0)"] by simp
  have c: "valid (validateMessage (Str [])) = False"
    using validateMessage_rejects_missing_or_blank [of "Str []"] by simp
  have d: "valid (validateMessage (Str [0x20, 0x9, 0xA])) = False"
    using validateMessage_rejects_missing_or_blank [of "Str [0x20, 0x9, 0xA]"] ws by blast
  have e: "error (validateMessage (Str [0x20, 0x9, 0xA])) = Some (ustr ''Message cannot be empty'')"
    by (simp add: validateMessage_def trim_def is_ws_def)
  from a b c d e show ?thesis by simp
qed

text \<open>
  C8, as stated, says that every string of more than 2000 code units is rejected with
  \<^verbatim>\<open>Message is too long (max 2000 characters)\<close>. The emptiness test comes first in the
  source: 2001 spaces are rejected with \<^verbatim>\<open>Message cannot be empty\<close>.
\<close>

theorem validateMessage_long_blank_counterexample:
  "2000 < length (replicate 2001 (0x20 :: 16 word))
   \<and> validateMessage (Str (replicate 2001 0x20)) =
       \<lparr>valid = False, error = Some (ustr ''Message cannot be empty'')\<rparr>
   \<and> ustr ''Message cannot be empty'' \<noteq> ustr ''Message is too long (max 2000 characters)''"
  by (simp add: validateMessage_def trim_def is_ws_def ustr_def)

text \<open>
  C8, amended. A message is accepted exactly when it is a string whose trimmed form is
  not empty and whose length is at most 2000. A string of more than 2000 code units
  whose trimmed form is not empty is rejected with
  \<^verbatim>\<open>Message is too long (max 2000 characters)\<close>, and a non-empty string of whitespace, of
  any length, with \<^verbatim>\<open>Message cannot be empty\<close>.
\<close>

theorem validateMessage_accepts_iff:
  "(valid (validateMessage m) \<longleftrightarrow> (\<exists>s. m = Str s \<and> trim s \<noteq> [] \<and> length s \<le> 2000))
   \<and> (\<forall>s. m = Str s \<and> trim s \<noteq> [] \<and> 2000 < length s \<longrightarrow>
          validateMessage m =
            \<lparr>valid = False, error = Some (ustr ''Message is too long (max 2000 characters)'')\<rparr>)
   \<and> (\<forall>s. m = Str s \<and> s \<noteq> [] \<and> trim s = [] \<longrightarrow>
          validateMessage m = \<lparr>valid = False, error = Some (ustr ''Message cannot be empty'')\<rparr>)"
proof -
  have "trim [] = []" by (simp add: trim_def)
  then show ?thesis
    by (cases m) (auto simp: validateMessage_cases)
qed

theorem validateMessage_accepts_iff_witness:
  "valid (validateMessage (Str (ustr ''AI tutors help'')))
   \<and> validateMessage (Str (replicate 2001 0x61)) =
       \<lparr>valid = False, error = Some (ustr ''Message is too long (max 2000 characters)'')\<rparr>
   \<and> validateMessage (Str (replicate 3000 0x20)) =
       \<lparr>valid = False, error = Some (ustr ''Message cannot be empty'')\<rparr>"
proof -
  have t1: "trim (ustr ''AI tutors help'') \<noteq> []"
    by (simp add: trim_def is_ws_def ustr_def)
  have t2: "trim (replicate 2001 (0x61 :: 16 word)) \<noteq> []"
    by (simp add: trim_empty_iff list_all_iff is_ws_def)
  have t3: "trim (replicate 3000 (0x20 :: 16 word)) = []"
    by (simp add: trim_empty_iff list_all_iff is_ws_def)
  have a: "valid (validateMessage (Str (ustr ''AI tutors help'')))"
    using validateMessage_accepts_iff [of "Str (ustr ''AI tutors help'')"] t1
    by (simp add: ustr_def)
  have b: "validateMessage (Str (replicate 2001 0x61)) =
       \<lparr>valid = False, error = Some (ustr ''Message is too long (max 2000 characters)'')\<rparr>"
    using validateMessage_accepts_iff [of "Str (replicate 2001 0x61)"] t2 by simp
  have c: "validateMessage (Str (replicate 3000 0x20)) =
       \<lparr>valid = False, error = Some (ustr ''Message cannot be empty'')\<rparr>"
    using validateMessage_accepts_iff [of "Str (replicate 3000 0x20)"] t3 by simp
  from a b c show ?thesis by simp
qed

section \<open>Properties of truncateText\<close>

lemma length_substring_prefix:
  "0 \<le> n \<Longrightarrow> n \<le> int (length s) \<Longrightarrow> length (substring s 0 n) = nat n"
  by (auto simp: substring_def Let_def min_def max_def)

text \<open>
  C10. For a limit of at least 3 the result has at most \<open>maxLength\<close> code units, a
  text that fits is returned as it is, and \<^verbatim>\<open>null\<close> and the empty string give the empty
  string.
\<close>

theorem truncateText_bounded:
  assumes "3 \<le> maxLength"
  shows "int (length (truncateText text maxLength)) \<le> maxLength
         \<and> (\<forall>t. text = Some t \<and> int (length t) \<le> maxLength \<longrightarrow> truncateText text maxLength = t)
         \<and> (text = None \<or> text = Some [] \<longrightarrow> truncateText text maxLength = [])"
proof (cases "text")
  case None
  with assms show ?thesis by (simp add: truncateText_def)
next
  case (Some t)
  show ?thesis
  proof (cases "t = [] \<or> int (length t) \<le> maxLength")
    case True
    with Some assms show ?thesis by (auto simp: truncateText_def)
  next
    case False
    then have long: "maxLength < int (length t)" by simp
    with assms have "length (substring t 0 (maxLength - 3)) = nat (maxLength - 3)"
      by (intro length_substring_prefix) simp_all
    moreover have "length (ustr ''...'') = 3" by (simp add: ustr_def)
    ultimately have "int (length (truncateText text maxLength)) = maxLength"
      using Some False assms by (simp add: truncateText_def)
    with Some False show ?thesis by auto
  qed
qed

theorem truncateText_bounded_witness:
  "int (length (truncateText (Some (ustr ''Should AI replace teachers?'')) 10)) \<le> 10
   \<and> truncateText (Some (ustr ''Should AI replace teachers?'')) 10 = ustr ''Should ...''
   \<and> truncateText (Some (ustr ''Not Set'')) 50 = ustr ''Not Set''
   \<and> truncateText None 50 = []"
proof -
  have h: "(3::int) \<le> 10" "(3::int) \<le> 50" by simp_all
  have a: "int (length (truncateText (Some (ustr ''Should AI replace teachers?'')) 10)) \<le> 10"
    using truncateText_bounded [OF h(1)] by blast
  have b: "truncateText (Some (ustr ''Not Set'')) 50 = ustr ''Not Set''"
    using truncateText_bounded [OF h(2), of "Some (ustr ''Not Set'')"] by (simp add: ustr_def)
  have c: "truncateText None 50 = []"
    using truncateText_bounded [OF h(2), of None] by simp
  have d: "truncateText (Some (ustr ''Should AI replace teachers?'')) 10 = ustr ''Should ...''"
    by (simp add: truncateText_def substring_def ustr_def)
  from a b c d show ?thesis by simp
qed

section \<open>Properties of extractAgentInfo\<close>

lemma agentMap_moderator:
  "agentMap_get (ustr ''moderator'') =
     Some (Own \<lparr>name = Str (ustr ''Moderator''), emoji = Str [0x2696, 0xFE0F],
                role = Str (ustr ''Managing debate structure'')\<rparr>)"
  by (simp add: agentMap_get_def agentMap_def ustr_def)

text \<open>
  What the function returns for a truthy reply whose agent name converts to a key: the
  three properties of whatever the lookup finds, and the three fields of the reply with
  their defaults.
\<close>

lemma extractAgentInfo_result:
  assumes "truthy response" and "agent_key response = Inr key"
  shows "extractAgentInfo response =
           Inr (Some
             \<lparr>name = name (slot_entry (case agentMap_get key of Some slot \<Rightarrow> slot
                        | None \<Rightarrow> Own \<lparr>name = Str (ustr ''Moderator''), emoji = Str [0x2696, 0xFE0F],
                                          role = Str (ustr ''Managing debate structure'')\<rparr>)),
              emoji = emoji (slot_entry (case agentMap_get key of Some slot \<Rightarrow> slot
                        | None \<Rightarrow> Own \<lparr>name = Str (ustr ''Moderator''), emoji = Str [0x2696, 0xFE0F],
                                          role = Str (ustr ''Managing debate structure'')\<rparr>)),
              role = role (slot_entry (case agentMap_get key of Some slot \<Rightarrow> slot
                        | None \<Rightarrow> Own \<lparr>name = Str (ustr ''Moderator''), emoji = Str [0x2696, 0xFE0F],
                                          role = Str (ustr ''Managing debate structure'')\<rparr>)),
              confidence = js_or (get_prop response (ustr ''confidence'')) (Num (Dec False 0 0)),
              reasoning = js_or (get_prop response (ustr ''reasoning'')) (Str (ustr ''Processing...'')),
              metadata = js_or (get_prop response (ustr ''metadata'')) (Obj [])\<rparr>)"
  using assms
  by (simp add: extractAgentInfo_def agent_key_def agentMap_moderator split: option.split)

lemma extractAgentInfo_SomeD:
  assumes "extractAgentInfo response = Inr (Some info)"
  shows "truthy response \<and> (\<exists>key. agent_key response = Inr key)"
proof (cases "truthy response")
  case True
  show ?thesis
  proof (cases "agent_key response")
    case (Inl e)
    with True assms show ?thesis
      by (simp add: extractAgentInfo_def agent_key_def)
  next
    case (Inr key)
    with True show ?thesis by simp
  qed
next
  case False
  with assms show ?thesis by (simp add: extractAgentInfo_def)
qed

text \<open>
  C2, as stated, says that a confidence that is absent, unparsable or out of range is
  replaced by 0.5 and flagged with \<^verbatim>\<open>metadata.warning = "confidence_defaulted"\<close>. The
  reply of scenario E, whose confidence is the string \<^verbatim>\<open>high\<close>, keeps that string as its
  confidence, and its metadata is the empty object: no warning is added.
\<close>

theorem confidence_not_defaulted_counterexample:
  "extractAgentInfo
     (Obj [(ustr ''agent_name'', Str (ustr ''debater_for'')),
           (ustr ''content'', Str (ustr ''Consider the evidence.'')),
           (ustr ''confidence'', Str (ustr ''high''))]) =
   Inr (Some \<lparr>name = Str (ustr ''Advocate''), emoji = Str [0xD83D, 0xDC4D],
              role = Str (ustr ''Supporting arguments''),
              confidence = Str (ustr ''high''),
              reasoning = Str (ustr ''Processing...''),
              metadata = Obj []\<rparr>)
   \<and> Str (ustr ''high'') \<noteq> Num (Dec False 5 (-1))
   \<and> get_prop (Obj []) (ustr ''warning'') \<noteq> Str (ustr ''confidence_defaulted'')"
  by (simp add: extractAgentInfo_def js_or_def agentMap_get_def agentMap_def ustr_def)

text \<open>
  C2, amended. For every reply (a truthy value whose agent name converts to a key), the
  agent information carries the reply's confidence unchanged when it is truthy, be it an
  unparsable string or a number out of range, and the number 0 when it is absent or
  falsy; the metadata is the reply's metadata unchanged, or an empty object when that is
  absent or falsy, and no warning is added. Nothing in the conditions concerns the
  confidence: no value of it makes the function fail.
\<close>

theorem extractAgentInfo_confidence_default:
  assumes "truthy response" and "agent_key response = Inr key"
  shows "\<exists>info. extractAgentInfo response = Inr (Some info)
           \<and> confidence info =
               (if truthy (get_prop response (ustr ''confidence''))
                then get_prop response (ustr ''confidence'') else Num (Dec False 0 0))
           \<and> metadata info =
               (if truthy (get_prop response (ustr ''metadata''))
                then get_prop response (ustr ''metadata'') else Obj [])"
  by (simp add: extractAgentInfo_result [OF assms] js_or_def)

theorem extractAgentInfo_confidence_default_witness:
  "\<exists>info. extractAgentInfo (Obj [(ustr ''agent_name'', Str (ustr ''coach''))]) = Inr (Some info)
      \<and> confidence info = Num (Dec False 0 0) \<and> metadata info = Obj []"
proof -
  have t: "truthy (Obj [(ustr ''agent_name'', Str (ustr ''coach''))])" by simp
  have k: "agent_key (Obj [(ustr ''agent_name'', Str (ustr ''coach''))]) = Inr (ustr ''coach'')"
    by (simp add: agent_key_def js_or_def ustr_def)
  show ?thesis
    using extractAgentInfo_confidence_default [OF t k] by (simp add: ustr_def)
qed

text \<open>
  C3, as stated, says that the confidence of every assistant turn displayed lies in the
  closed interval from 0 to 1. A reply with confidence 1.5 is shown with confidence 1.5.
\<close>

theorem confidence_out_of_range_counterexample:
  "extractAgentInfo
     (Obj [(ustr ''agent_name'', Str (ustr ''debater_against'')),
           (ustr ''confidence'', Num (Dec False 15 (-1)))]) =
   Inr (Some \<lparr>name = Str (ustr ''Challenger''), emoji = Str [0xD83D, 0xDC4E],
              role = Str (ustr ''Challenging arguments''),
              confidence = Num (Dec False 15 (-1)),
              reasoning = Str (ustr ''Processing...''),
              metadata = Obj []\<rparr>)
   \<and> num_val (Dec False 15 (-1)) = Some (3 / 2)
   \<and> \<not> in_unit_interval (Num (Dec False 15 (-1)))"
  by (simp add: extractAgentInfo_def js_or_def agentMap_get_def agentMap_def ustr_def)

text \<open>
  C3, amended. The confidence attached to the agent information is the reply's
  confidence when that is truthy and 0 otherwise; it lies in the closed interval from 0
  to 1 exactly when the reply's confidence does, or is absent or falsy. The front end
  does not clamp.
\<close>

theorem extractAgentInfo_confidence_range:
  assumes "extractAgentInfo response = Inr (Some info)"
  shows "confidence info = js_or (get_prop response (ustr ''confidence'')) (Num (Dec False 0 0))
         \<and> (in_unit_interval (confidence info) \<longleftrightarrow>
              in_unit_interval (get_prop response (ustr ''confidence''))
              \<or> \<not> truthy (get_prop response (ustr ''confidence'')))"
proof -
  from extractAgentInfo_SomeD [OF assms] obtain key
    where "truthy response" and "agent_key response = Inr key" by blast
  from extractAgentInfo_result [OF this] assms
  have c: "confidence info =
      js_or (get_prop response (ustr ''confidence'')) (Num (Dec False 0 0))"
    by auto
  have "in_unit_interval (Num (Dec False 0 0))" by simp
  with c show ?thesis by (simp add: js_or_def)
qed

theorem extractAgentInfo_confidence_range_witness:
  "in_unit_interval (Num (Dec False 85 (-2)))
   \<and> extractAgentInfo (Obj [(ustr ''confidence'', Num (Dec False 85 (-2)))]) =
      Inr (Some \<lparr>name = Str (ustr ''Moderator''), emoji = Str [0x2696, 0xFE0F],
              role = Str (ustr ''Managing debate structure''),
              confidence = Num (Dec False 85 (-2)),
              reasoning = Str (ustr ''Processing...''),
              metadata = Obj []\<rparr>)
   \<and> in_unit_interval (confidence \<lparr>name = Str (ustr ''Moderator''), emoji = Str [0x2696, 0xFE0F],
              role = Str (ustr ''Managing debate structure''),
              confidence = Num (Dec False 85 (-2)),
              reasoning = Str (ustr ''Processing...''),
              metadata = Obj []\<rparr>)"
proof -
  have e: "extractAgentInfo (Obj [(ustr ''confidence'', Num (Dec False 85 (-2)))]) =
      Inr (Some \<lparr>name = Str (ustr ''Moderator''), emoji = Str [0x2696, 0xFE0F],
              role = Str (ustr ''Managing debate structure''),
              confidence = Num (Dec False 85 (-2)),
              reasoning = Str (ustr ''Processing...''),
              metadata = Obj []\<rparr>)"
    by (simp add: extractAgentInfo_def js_or_def agentMap_get_def agentMap_def ustr_def)
  have i: "in_unit_interval (Num (Dec False 85 (-2)))" by simp
  have g: "get_prop (Obj [(ustr ''confidence'', Num (Dec False 85 (-2)))]) (ustr ''confidence'')
             = Num (Dec False 85 (-2))" by simp
  from extractAgentInfo_confidence_range [OF e] i g e show ?thesis by metis
qed

text \<open>
  C6, as stated, says that an absent reasoning becomes the empty string. The function
  puts the placeholder \<^verbatim>\<open>Processing...\<close> there.
\<close>

theorem reasoning_placeholder_counterexample:
  "get_prop (Obj [(ustr ''agent_name'', Str (ustr ''coach'')),
                  (ustr ''confidence'', Num (Dec False 9 (-1)))]) (ustr ''reasoning'') = Undefined
   \<and> extractAgentInfo
        (Obj [(ustr ''agent_name'', Str (ustr ''coach'')),
              (ustr ''confidence'', Num (Dec False 9 (-1)))]) =
      Inr (Some \<lparr>name = Str (ustr ''Coach''), emoji = Str [0xD83C, 0xDFC6],
              role = Str (ustr ''Offering strategic tips''),
              confidence = Num (Dec False 9 (-1)),
              reasoning = Str (ustr ''Processing...''),
              metadata = Obj []\<rparr>)
   \<and> Str (ustr ''Processing...'') \<noteq> Str []"
  by (simp add: extractAgentInfo_def js_or_def agentMap_get_def agentMap_def ustr_def)

text \<open>
  C6, amended. For every reply whose reasoning is absent (or falsy: \<^verbatim>\<open>null\<close>, the empty
  string), the reasoning of the agent information is exactly \<^verbatim>\<open>Processing...\<close>, and the
  function returns normally.
\<close>

theorem extractAgentInfo_reasoning_default:
  assumes "truthy response" and "agent_key response = Inr key"
    and "\<not> truthy (get_prop response (ustr ''reasoning''))"
  shows "\<exists>info. extractAgentInfo response = Inr (Some info)
           \<and> reasoning info = Str (ustr ''Processing...'')"
  using assms(3) by (simp add: extractAgentInfo_result [OF assms(1,2)] js_or_def)

theorem extractAgentInfo_reasoning_default_witness:
  "\<exists>info. extractAgentInfo (Obj [(ustr ''agent_name'', Str (ustr ''coach'')),
                                  (ustr ''confidence'', Num (Dec False 9 (-1)))]) = Inr (Some info)
      \<and> reasoning info = Str (ustr ''Processing...'')"
proof -
  let ?r = "Obj [(ustr ''agent_name'', Str (ustr ''coach'')),
                 (ustr ''confidence'', Num (Dec False 9 (-1)))]"
  have t: "truthy ?r" by simp
  have k: "agent_key ?r = Inr (ustr ''coach'')"
    by (simp add: agent_key_def js_or_def ustr_def)
  have a: "\<not> truthy (get_prop ?r (ustr ''reasoning''))"
    by (simp add: ustr_def)
  show ?thesis
    using extractAgentInfo_reasoning_default [OF t k a] .
qed

text \<open>
  C4, as stated, says that the acting persona is always one of \<^verbatim>\<open>moderator\<close>,
  \<^verbatim>\<open>debater_for\<close>, \<^verbatim>\<open>debater_against\<close>, \<^verbatim>\<open>coach\<close> and \<^verbatim>\<open>feedback_evaluator\<close>. The table of the
  front end has eight agents: \<^verbatim>\<open>topic_generator\<close> is displayed as an agent of its own,
  and \<^verbatim>\<open>feedback_evaluator\<close> is not a key of the table.
\<close>

theorem persona_outside_five_counterexample:
  "extractAgentInfo (Obj [(ustr ''agent_name'', Str (ustr ''topic_generator''))]) =
     Inr (Some \<lparr>name = Str (ustr ''Topic Generator''), emoji = Str [0xD83D, 0xDCA1],
              role = Str (ustr ''Creating debate topics''),
              confidence = Num (Dec False 0 0),
              reasoning = Str (ustr ''Processing...''),
              metadata = Obj []\<rparr>)
   \<and> ustr ''topic_generator'' \<notin>
       set (map ustr [''moderator'', ''debater_for'', ''debater_against'', ''coach'',
                      ''feedback_evaluator''])
   \<and> map_of agentMap (ustr ''feedback_evaluator'') = None
   \<and> length agentMap = 8"
  by (simp add: extractAgentInfo_def js_or_def agentMap_get_def agentMap_def ustr_def)

text \<open>
  C4, amended. For every reply whose agent name (its \<^verbatim>\<open>agent_name\<close>, or \<^verbatim>\<open>moderator\<close> when
  that is absent or falsy) is not the name of a member of \<^verbatim>\<open>Object.prototype\<close>, the agent
  displayed is drawn from exactly the eight entries of \<open>agentMap\<close>, whose keys are
  \<^verbatim>\<open>controller\<close>, \<^verbatim>\<open>moderator\<close>, \<^verbatim>\<open>topic_generator\<close>, \<^verbatim>\<open>debater_for\<close>, \<^verbatim>\<open>debater_against\<close>,
  \<^verbatim>\<open>feedback\<close>, \<^verbatim>\<open>coach\<close> and \<^verbatim>\<open>memory\<close>: the entry of that name, and the entry of the
  moderator for every other name.
\<close>

theorem extractAgentInfo_agent_among_eight:
  assumes "truthy response" and "agent_key response = Inr key"
    and "object_prototype_get key = None"
  shows "map fst agentMap =
           map ustr [''controller'', ''moderator'', ''topic_generator'', ''debater_for'',
                     ''debater_against'', ''feedback'', ''coach'', ''memory'']
         \<and> (\<exists>info e. extractAgentInfo response = Inr (Some info)
               \<and> (map_of agentMap key = Some e
                  \<or> map_of agentMap key = None \<and> map_of agentMap (ustr ''moderator'') = Some e)
               \<and> e \<in> snd ` set agentMap
               \<and> name info = name e \<and> emoji info = emoji e \<and> role info = role e)"
proof -
  have keys: "map fst agentMap =
           map ustr [''controller'', ''moderator'', ''topic_generator'', ''debater_for'',
                     ''debater_against'', ''feedback'', ''coach'', ''memory'']"
    by (simp add: agentMap_def)
  have m: "map_of agentMap (ustr ''moderator'') =
             Some \<lparr>name = Str (ustr ''Moderator''), emoji = Str [0x2696, 0xFE0F],
                   role = Str (ustr ''Managing debate structure'')\<rparr>"
    by (simp add: agentMap_def ustr_def)
  show ?thesis
  proof (cases "map_of agentMap key")
    case None
    with assms(3) have "agentMap_get key = None"
      by (simp add: agentMap_get_def)
    moreover from m have "\<lparr>name = Str (ustr ''Moderator''), emoji = Str [0x2696, 0xFE0F],
                   role = Str (ustr ''Managing debate structure'')\<rparr> \<in> snd ` set agentMap"
      by (metis map_of_SomeD snd_conv image_eqI)
    ultimately show ?thesis
      using keys m None by (simp add: extractAgentInfo_result [OF assms(1,2)])
  next
    case (Some e)
    then have "agentMap_get key = Some (Own e)"
      by (simp add: agentMap_get_def)
    moreover from Some have "e \<in> snd ` set agentMap"
      by (metis map_of_SomeD snd_conv image_eqI)
    ultimately show ?thesis
      using keys Some by (simp add: extractAgentInfo_result [OF assms(1,2)])
  qed
qed

theorem extractAgentInfo_agent_among_eight_witness:
  "\<exists>info. extractAgentInfo (Obj [(ustr ''agent_name'', Str (ustr ''feedback_evaluator''))])
             = Inr (Some info)
      \<and> name info = Str (ustr ''Moderator'') \<and> emoji info = Str [0x2696, 0xFE0F]
      \<and> role info = Str (ustr ''Managing debate structure'')"
proof -
  let ?r = "Obj [(ustr ''agent_name'', Str (ustr ''feedback_evaluator''))]"
  have t: "truthy ?r" by simp
  have k: "agent_key ?r = Inr (ustr ''feedback_evaluator'')"
    by (simp add: agent_key_def js_or_def ustr_def)
  have p: "object_prototype_get (ustr ''feedback_evaluator'') = None"
    by (simp add: object_prototype_get_def object_prototype_functions_def ustr_def)
  have n: "map_of agentMap (ustr ''feedback_evaluator'') = None"
    by (simp add: agentMap_def ustr_def)
  have m: "map_of agentMap (ustr ''moderator'') =
             Some \<lparr>name = Str (ustr ''Moderator''), emoji = Str [0x2696, 0xFE0F],
                   role = Str (ustr ''Managing debate structure'')\<rparr>"
    by (simp add: agentMap_def ustr_def)
  from extractAgentInfo_agent_among_eight [OF t k p] n m show ?thesis
    by auto
qed

text \<open>
  C9. The lookup \<^verbatim>\<open>agentMap[agentName]\<close> also finds what \<open>agentMap\<close> inherits. The name
  \<^verbatim>\<open>constructor\<close> is no key of the table, yet the reply is not displayed as the moderator:
  the lookup answers the function \<^verbatim>\<open>Object\<close>, whose name is \<^verbatim>\<open>Object\<close> and which has
  neither emoji nor role. An agent name that is an object with an own property
  \<^verbatim>\<open>toString\<close> makes the function throw.
\<close>

theorem extractAgentInfo_inherited_key:
  "map_of agentMap (ustr ''constructor'') = None
   \<and> extractAgentInfo (Obj [(ustr ''agent_name'', Str (ustr ''constructor''))]) =
     Inr (Some \<lparr>name = Str (ustr ''Object''), emoji = Undefined, role = Undefined,
              confidence = Num (Dec False 0 0),
              reasoning = Str (ustr ''Processing...''),
              metadata = Obj []\<rparr>)
   \<and> extractAgentInfo
       (Obj [(ustr ''agent_name'', Obj [(ustr ''toString'', Str (ustr ''coach''))])]) =
     Inl TypeError"
  by (simp add: extractAgentInfo_def js_or_def agentMap_get_def agentMap_def
      object_prototype_get_def ustr_def)

section \<open>Properties of the requests\<close>

lemma receive_not_ok:
  assumes "\<not> ok r"
  shows "receive (Resolved r) =
           (case body r of
              None \<Rightarrow> Inl SyntaxError
            | Some j \<Rightarrow>
                if j = Undefined \<or> j = Null then Inl TypeError
                else Inl (throw_new_Error
                       (js_or (get_prop j (ustr ''detail''))
                          (Str (ustr ''HTTP '' @ number_to_string (Dec False (status r) 0))))))"
  using assms
  by (simp add: receive_def response_json_def read_member_def split: option.split)

lemma receive_ok:
  assumes "ok r"
  shows "receive (Resolved r) = (case body r of None \<Rightarrow> Inl SyntaxError | Some j \<Rightarrow> Inr j)"
  using assms by (simp add: receive_def response_json_def)

lemma operations_receive:
  assumes "out \<in> {startDebate (answer_with (Resolved r)) apiUrl topicRequest,
                   continueDebate (answer_with (Resolved r)) apiUrl sessionId message,
                   endDebate (answer_with (Resolved r)) apiUrl sessionId}
           \<or> to_string sessionId = Inr sid
             \<and> out \<in> {getSession (answer_with (Resolved r)) apiUrl sessionId,
                       deleteSession (answer_with (Resolved r)) apiUrl sessionId}"
  shows "out = receive (Resolved r)"
  using assms
  by (auto simp: startDebate_def continueDebate_def endDebate_def getSession_def
      deleteSession_def answer_with_def)

text \<open>
  C7, as stated, says that an operation returns a result exactly when the response is
  ok, and that it raises an error carrying the detail, or the HTTP status, when the
  response is not. A response with status 200 whose body is not JSON makes the operation
  raise, and for a response with status 502 whose body is not JSON the error raised is
  the SyntaxError of \<^verbatim>\<open>response.json()\<close>, which carries neither detail nor status.
\<close>

theorem response_without_json_counterexample:
  "ok \<lparr>status = 200, body = None\<rparr>
   \<and> startDebate (answer_with (Resolved \<lparr>status = 200, body = None\<rparr>))
       (ustr ''http://localhost:8000/api'') (Obj [(ustr ''category'', Str (ustr ''general''))])
     = Inl SyntaxError
   \<and> \<not> ok \<lparr>status = 502, body = None\<rparr>
   \<and> endDebate (answer_with (Resolved \<lparr>status = 502, body = None\<rparr>))
       (ustr ''http://localhost:8000/api'') (Str (ustr ''s1''))
     = Inl SyntaxError
   \<and> SyntaxError \<noteq> Error (ustr ''HTTP 502'')"
  by (simp add: startDebate_def endDebate_def answer_with_def receive_def response_json_def ok_def)

text \<open>
  C7, amended. Let the network answer an operation (\<^verbatim>\<open>startDebate\<close>, \<^verbatim>\<open>continueDebate\<close>,
  \<^verbatim>\<open>endDebate\<close>, and \<^verbatim>\<open>getSession\<close> or \<^verbatim>\<open>deleteSession\<close> with a session id that converts
  to a string) with the response \<open>r\<close>. When \<open>r\<close> is not ok the operation raises and never
  returns a result; when moreover the body is a JSON value other than \<^verbatim>\<open>null\<close>, the error
  is an \<^verbatim>\<open>Error\<close> whose message is the body's detail converted to a string if the detail
  is truthy, and \<^verbatim>\<open>HTTP\<close> followed by the status otherwise. The operation returns a
  result exactly when \<open>r\<close> is ok and its body is JSON, and the result is the parsed body.
\<close>

theorem operations_raise_or_return:
  assumes "out \<in> {startDebate (answer_with (Resolved r)) apiUrl topicRequest,
                   continueDebate (answer_with (Resolved r)) apiUrl sessionId message,
                   endDebate (answer_with (Resolved r)) apiUrl sessionId}
           \<or> to_string sessionId = Inr sid
             \<and> out \<in> {getSession (answer_with (Resolved r)) apiUrl sessionId,
                       deleteSession (answer_with (Resolved r)) apiUrl sessionId}"
  shows "(\<not> ok r \<longrightarrow> (\<exists>e. out = Inl e))
    \<and> (\<forall>j m. \<not> ok r \<and> body r = Some j \<and> j \<noteq> Null \<and> j \<noteq> Undefined
            \<and> truthy (get_prop j (ustr ''detail''))
            \<and> to_string (get_prop j (ustr ''detail'')) = Inr m
          \<longrightarrow> out = Inl (Error m))
    \<and> (\<forall>j. \<not> ok r \<and> body r = Some j \<and> j \<noteq> Null \<and> j \<noteq> Undefined
            \<and> \<not> truthy (get_prop j (ustr ''detail''))
          \<longrightarrow> out = Inl (Error (ustr ''HTTP '' @ number_to_string (Dec False (status r) 0))))
    \<and> ((\<exists>j. out = Inr j) \<longleftrightarrow> ok r \<and> body r \<noteq> None)
    \<and> (\<forall>j. ok r \<and> body r = Some j \<longrightarrow> out = Inr j)"
proof -
  have out: "out = receive (Resolved r)"
    using assms by (rule operations_receive)
  show ?thesis
  proof (cases "ok r")
    case True
    then show ?thesis
      by (auto simp: out receive_ok split: option.splits)
  next
    case False
    have raises: "\<exists>e. out = Inl e"
      by (simp add: out receive_not_ok [OF False] split: option.split)
    have detail: "out = Inl (Error m)"
      if "body r = Some j" "j \<noteq> Null" "j \<noteq> Undefined"
        "truthy (get_prop j (ustr ''detail''))" "to_string (get_prop j (ustr ''detail'')) = Inr m"
      for j m
    proof -
      from that(4) have "get_prop j (ustr ''detail'') \<noteq> Undefined" by auto
      with that show ?thesis
        by (simp add: out receive_not_ok [OF False] js_or_def throw_new_Error_def)
    qed
    have status: "out = Inl (Error (ustr ''HTTP '' @ number_to_string (Dec False (status r) 0)))"
      if "body r = Some j" "j \<noteq> Null" "j \<noteq> Undefined"
        "\<not> truthy (get_prop j (ustr ''detail''))"
      for j
      using that
      by (simp add: out receive_not_ok [OF False] js_or_def throw_new_Error_def)
    from False raises detail status show ?thesis
      by auto
  qed
qed

theorem operations_raise_or_return_witness:
  "continueDebate
     (answer_with (Resolved \<lparr>status = 404,
        body = Some (Obj [(ustr ''detail'', Str (ustr ''Session not found''))])\<rparr>))
     (ustr ''http://localhost:8000/api'') (Str (ustr ''s1'')) (Str (ustr ''hello''))
     = Inl (Error (ustr ''Session not found''))
   \<and> deleteSession (answer_with (Resolved \<lparr>status = 500, body = Some (Obj [])\<rparr>))
     (ustr ''http://localhost:8000/api'') (Str (ustr ''s1''))
     = Inl (Error (ustr ''HTTP 500''))
   \<and> getSession
     (answer_with (Resolved \<lparr>status = 200, body = Some (Obj [(ustr ''phase'', Str (ustr ''opening''))])\<rparr>))
     (ustr ''http://localhost:8000/api'') (Str (ustr ''s1''))
     = Inr (Obj [(ustr ''phase'', Str (ustr ''opening''))])"
proof -
  let ?api = "ustr ''http://localhost:8000/api''"
  let ?r1 = "\<lparr>status = 404, body = Some (Obj [(ustr ''detail'', Str (ustr ''Session not found''))])\<rparr>"
  let ?r2 = "\<lparr>status = 500, body = Some (Obj [])\<rparr>"
  let ?r3 = "\<lparr>status = 200, body = Some (Obj [(ustr ''phase'', Str (ustr ''opening''))])\<rparr>"
  have sid: "to_string (Str (ustr ''s1'')) = Inr (ustr ''s1'')" by simp
  have n500: "number_to_string (Dec False 500 0) = ustr ''500''"
    by (simp add: finite_to_string_def decimal_def trailing_zeros.simps dec_digits.simps
        digit_unit_def ustr_def numeral_2_eq_2)
  have a: "continueDebate (answer_with (Resolved ?r1)) ?api (Str (ustr ''s1'')) (Str (ustr ''hello''))
            = Inl (Error (ustr ''Session not found''))"
    using operations_raise_or_return
      [of "continueDebate (answer_with (Resolved ?r1)) ?api (Str (ustr ''s1'')) (Str (ustr ''hello''))"
          ?r1 ?api Null "Str (ustr ''s1'')" "Str (ustr ''hello'')" "ustr ''s1''"]
    by (simp add: ok_def ustr_def)
  have b: "deleteSession (answer_with (Resolved ?r2)) ?api (Str (ustr ''s1''))
            = Inl (Error (ustr ''HTTP 500''))"
    using operations_raise_or_return
      [of "deleteSession (answer_with (Resolved ?r2)) ?api (Str (ustr ''s1''))"
          ?r2 ?api Null "Str (ustr ''s1'')" Null "ustr ''s1''"] sid n500
    by (simp add: ok_def ustr_def)
  have c: "getSession (answer_with (Resolved ?r3)) ?api (Str (ustr ''s1''))
            = Inr (Obj [(ustr ''phase'', Str (ustr ''opening''))])"
    using operations_raise_or_return
      [of "getSession (answer_with (Resolved ?r3)) ?api (Str (ustr ''s1''))"
          ?r3 ?api Null "Str (ustr ''s1'')" Null "ustr ''s1''"] sid
    by (simp add: ok_def)
  from a b c show ?thesis by simp
qed

section \<open>Properties of the phase machine\<close>

lemma step_rank:
  "step minimum_rounds s a = Inr s' \<Longrightarrow> phase_rank (phase s) \<le> phase_rank (phase s')"
  by (cases a; cases "phase s") (auto split: if_splits phase.splits)

lemma step_moves:
  "step minimum_rounds s a = Inr s' \<Longrightarrow>
     phase s' = phase s \<or> phase_rank (phase s') = Suc (phase_rank (phase s))
     \<or> (a = End \<and> phase s' = Evaluation)"
  by (cases a; cases "phase s") (auto split: if_splits phase.splits)

lemma run_rank: "phase_rank (phase s) \<le> phase_rank (phase (run minimum_rounds s acts))"
proof (induction acts arbitrary: s)
  case Nil
  show ?case by simp
next
  case (Cons a acts)
  show ?case
  proof (cases "step minimum_rounds s a")
    case (Inl e)
    with Cons.IH [of s] show ?thesis by simp
  next
    case (Inr s')
    then have "phase_rank (phase s) \<le> phase_rank (phase s')" by (rule step_rank)
    also have "\<dots> \<le> phase_rank (phase (run minimum_rounds s' acts))" by (rule Cons.IH)
    finally show ?thesis using Inr by simp
  qed
qed

text \<open>
  C1. Whatever actions a session receives, its phase never moves to an earlier one:
  the rank of the phase after any run is at least the rank before. An accepted action
  leaves the phase as it is, moves it to the next phase of the line, or is an end action
  that moves it to \<^verbatim>\<open>evaluation\<close>; a refused action changes nothing. There are exactly
  six phases, and their names are the keys of \<open>phaseMap\<close> in \<^verbatim>\<open>formatPhase\<close>.
\<close>

theorem phase_moves_forward_only:
  "phase_rank (phase s) \<le> phase_rank (phase (run minimum_rounds s acts))
   \<and> (\<forall>a s'. step minimum_rounds s a = Inr s' \<longrightarrow>
         phase s' = phase s \<or> phase_rank (phase s') = Suc (phase_rank (phase s))
         \<or> (a = End \<and> phase s' = Evaluation))
   \<and> (\<forall>a e. step minimum_rounds s a = Inl e \<longrightarrow>
         run minimum_rounds s (a # acts) = run minimum_rounds s acts)
   \<and> (UNIV :: phase set) = {Setup, Opening, Rebuttal, Closing, Evaluation, Complete}
   \<and> map fst phaseMap =
       map (\<lambda>p. ustr (phase_name p)) [Setup, Opening, Rebuttal, Closing, Evaluation, Complete]"
proof -
  have "(UNIV :: phase set) = {Setup, Opening, Rebuttal, Closing, Evaluation, Complete}"
  proof -
    have "p \<in> {Setup, Opening, Rebuttal, Closing, Evaluation, Complete}" for p
      by (cases p) simp_all
    then show ?thesis by blast
  qed
  moreover have "map fst phaseMap =
       map (\<lambda>p. ustr (phase_name p)) [Setup, Opening, Rebuttal, Closing, Evaluation, Complete]"
    by (simp add: phaseMap_def)
  ultimately show ?thesis
    using run_rank [of s minimum_rounds acts] step_moves [of minimum_rounds s] by auto
qed

theorem phase_moves_forward_only_witness:
  "phase (run 3 \<lparr>phase = Setup, current_round = 0\<rparr>
            [Propose Opening, Propose Rebuttal, Exchange, Propose Rebuttal, Propose Setup,
             End, Propose Opening, Propose Complete, End]) = Complete
   \<and> phase_rank Setup \<le> phase_rank Complete
   \<and> step 3 \<lparr>phase = Rebuttal, current_round = 1\<rparr> (Propose Closing) = Inl PhaseViolation
   \<and> step 3 \<lparr>phase = Rebuttal, current_round = 1\<rparr> End
       = Inr \<lparr>phase = Evaluation, current_round = 1\<rparr>"
proof -
  let ?s = "\<lparr>phase = Setup, current_round = 0\<rparr>"
  let ?acts = "[Propose Opening, Propose Rebuttal, Exchange, Propose Rebuttal, Propose Setup,
             End, Propose Opening, Propose Complete, End]"
  have r: "phase (run 3 ?s ?acts) = Complete" by simp
  have "phase_rank (phase ?s) \<le> phase_rank (phase (run 3 ?s ?acts))"
    using phase_moves_forward_only [of ?s 3 ?acts] by blast
  with r have "phase_rank Setup \<le> phase_rank Complete" by simp
  with r show ?thesis by simp
qed

end
